theory Spec2Isabelle
  imports Main "HOL-Library.Sublist"
begin

section \<open>The authentication middleware\<close>

text \<open>
  The unit under verification is the Express middleware \<^verbatim>\<open>authMiddleware(req, res, next)\<close>.
  It reads the \<^verbatim>\<open>Authorization\<close> header, removes the text \<^verbatim>\<open>'Bearer '\<close> from it, hands
  the rest to \<^verbatim>\<open>jwt.verify\<close> together with \<^verbatim>\<open>process.env.JWT_SECRET\<close>, and either stores the
  decoded payload in \<^verbatim>\<open>req.user\<close> and calls \<^verbatim>\<open>next()\<close>, or answers with a status code and a
  JSON body \<^verbatim>\<open>{message: ...}\<close>.
\<close>

subsection \<open>Values\<close>

text \<open>
  A thrown JavaScript error. The \<^verbatim>\<open>catch\<close> block looks at \<^verbatim>\<open>error.name\<close> only.
\<close>

datatype js_error = JsError (error_name: string) (error_message: string)

text \<open>
  \<^verbatim>\<open>jwt.verify(token, secret)\<close> belongs to the package \<^verbatim>\<open>jsonwebtoken\<close>, which the middleware
  imports. The middleware is modelled over an arbitrary verifier: a function of the clock
  it reads, the token and the secret, which either throws (\<open>Inl\<close>) or returns the decoded
  payload (\<open>Inr\<close>). The secret is \<^verbatim>\<open>process.env.JWT_SECRET\<close>: a string, or \<open>None\<close> for
  \<^verbatim>\<open>undefined\<close>.
\<close>

type_synonym 'c verifier = "nat \<Rightarrow> string \<Rightarrow> string option \<Rightarrow> js_error + 'c"

text \<open>
  One request and its response, as far as the middleware touches them.
  \<^item> \<open>authorization\<close> is \<^verbatim>\<open>req.header('Authorization')\<close>: \<open>None\<close> for \<^verbatim>\<open>undefined\<close>. Node
    decodes header bytes as Latin-1, so a header is a list of 8-bit characters.
  \<^item> \<open>user\<close> is \<^verbatim>\<open>req.user\<close>.
  \<^item> \<open>response\<close> is what \<^verbatim>\<open>res.status(code).json({message: m})\<close> sent: the pair \<open>(code, m)\<close>.
  \<^item> \<open>next_calls\<close> counts the calls of \<^verbatim>\<open>next()\<close>. Express wraps every downstream handler
    in its own \<^verbatim>\<open>try\<close>, so the call returns normally.
  \<^item> \<open>verify_log\<close> records the arguments of each call of \<^verbatim>\<open>jwt.verify\<close>, in order.
  Further fields of the request live in the record's extension.
\<close>

record 'c exchange =
  authorization :: "string option"
  user :: "'c option"
  response :: "(nat \<times> string) option"
  next_calls :: nat
  verify_log :: "(string \<times> string option) list"

subsection \<open>String operations\<close>

text \<open>
  \<^verbatim>\<open>s.replace(pat, rep)\<close> with a string pattern: the first occurrence of \<open>pat\<close> in \<open>s\<close> is
  replaced, the rest of \<open>s\<close> is kept; without an occurrence \<open>s\<close> is returned unchanged.
  The middleware passes the replacement \<^verbatim>\<open>''\<close>, so the \<^verbatim>\<open>$\<close> patterns of a replacement
  string never arise.
\<close>

fun replace :: "string \<Rightarrow> string \<Rightarrow> string \<Rightarrow> string" where
  "replace [] pat rep = (if pat = [] then rep else [])"
| "replace (c # cs) pat rep =
     (if prefix pat (c # cs) then rep @ drop (length pat) (c # cs)
      else c # replace cs pat rep)"

text \<open>\<^verbatim>\<open>!v\<close> for a value that is a string or \<^verbatim>\<open>undefined\<close>: the empty string is falsy too.\<close>

fun falsy :: "string option \<Rightarrow> bool" where
  "falsy None = True"
| "falsy (Some s) = (s = [])"

subsection \<open>The middleware\<close>

text \<open>\<^verbatim>\<open>return res.status(code).json({message: msg})\<close>\<close>

definition reject :: "nat \<Rightarrow> string \<Rightarrow> ('c, 'z) exchange_scheme \<Rightarrow> ('c, 'z) exchange_scheme" where
  "reject code msg x = x\<lparr>response := Some (code, msg)\<rparr>"

text \<open>The \<^verbatim>\<open>catch (error)\<close> block.\<close>

definition authMiddleware_catch ::
    "js_error \<Rightarrow> ('c, 'z) exchange_scheme \<Rightarrow> ('c, 'z) exchange_scheme" where
  "authMiddleware_catch error x =
     (if error_name error = ''JsonWebTokenError'' then
        reject 401 ''Access denied. Invalid token.'' x
      else if error_name error = ''TokenExpiredError'' then
        reject 401 ''Access denied. Token expired.'' x
      else
        reject 500 ''Server error during authentication.'' x)"

text \<open>
  The whole function. Nothing before the call of \<^verbatim>\<open>jwt.verify\<close> throws, and \<^verbatim>\<open>req.user\<close> is
  assigned only after it has returned, so the \<^verbatim>\<open>catch\<close> block runs on the request as it was.
\<close>

definition authMiddleware ::
    "'c verifier \<Rightarrow> nat \<Rightarrow> string option \<Rightarrow> ('c, 'z) exchange_scheme \<Rightarrow> ('c, 'z) exchange_scheme" where
  "authMiddleware verify now secret x =
     (let authHeader = authorization x in
      if falsy authHeader then
        reject 401 ''Access denied. No token provided.'' x
      else
        let token = replace (case authHeader of Some h \<Rightarrow> h | None \<Rightarrow> []) ''Bearer '' [] in
        if falsy (Some token) then
          reject 401 ''Access denied. Invalid token format.'' x
        else
          let x1 = x\<lparr>verify_log := verify_log x @ [(token, secret)]\<rparr> in
          (case verify now token secret of
             Inl error \<Rightarrow> authMiddleware_catch error x1
           | Inr decoded \<Rightarrow> x1\<lparr>user := Some decoded, next_calls := Suc (next_calls x1)\<rparr>))"

section \<open>Tokens and their verification\<close>

text \<open>
  The middleware's source is all of the guard that the repository holds. What a token is,
  how the issuer signs it and what \<^verbatim>\<open>jwt.verify\<close> does with it are external; the
  definitions of this section follow the specification's description of them.
\<close>

text \<open>
  Modelled from the spec: the claims of a token, "a mapping of identity attributes (at
  minimum a stable user identifier) plus standard temporal fields (issued-at,
  expires-at)". No source file declares the payload; further attributes live in the
  record's extension. Times are in seconds.
\<close>

record claims =
  user_id :: string
  issued_at :: nat
  expires_at :: nat

text \<open>
  Modelled from the spec: the parts of the token scheme that issuer and verifier share
  and that no source file holds: the header part that declares the algorithm, the coding
  of claims as the payload part, and the signature of a signing input under a secret.
  They are parameters; nothing is assumed about them beyond what a theorem states.
\<close>

record jwt_scheme =
  alg_header :: string
  encode_claims :: "claims \<Rightarrow> string"
  decode_claims :: "string \<Rightarrow> claims option"
  sign_with :: "string \<Rightarrow> string \<Rightarrow> string"

text \<open>
  Modelled from the spec: the "compact signed token with three logical parts: header,
  payload (claims), signature" is the three parts joined by dots; \<open>split_on\<close> cuts a
  string at every occurrence of the separator, as \<^verbatim>\<open>token.split('.')\<close> does.
\<close>

fun split_on :: "char \<Rightarrow> string \<Rightarrow> string list" where
  "split_on d [] = [[]]"
| "split_on d (c # cs) =
     (if c = d then [] # split_on d cs
      else (case split_on d cs of [] \<Rightarrow> [[c]] | w # ws \<Rightarrow> (c # w) # ws))"

text \<open>Modelled from the spec: what the signature of a token covers, header and payload.\<close>

definition signing_input :: "jwt_scheme \<Rightarrow> claims \<Rightarrow> string" where
  "signing_input L c = alg_header L @ ''.'' @ encode_claims L c"

text \<open>
  Modelled from the spec: the issuer, which is outside the repository's sources, produces
  a token for given claims with a signing secret.
\<close>

definition jwt_sign :: "jwt_scheme \<Rightarrow> string \<Rightarrow> claims \<Rightarrow> string" where
  "jwt_sign L secret c = signing_input L c @ ''.'' @ sign_with L secret (signing_input L c)"

text \<open>
  Modelled from the spec: \<^verbatim>\<open>jwt.verify\<close>, whose code is not among the sources, after
  section 4.1 step 3. Malformed structure is found first. Then a missing or empty secret,
  an unsupported algorithm, a signature that is not the one the secret yields and a
  payload that does not decode all throw \<^verbatim>\<open>JsonWebTokenError\<close>: without a secret no signature
  is found valid, and the package reports that under the same name as an invalid
  signature ("secret or public key must be provided"), not as a failure of another kind.
  A valid signature on claims whose expires-at has passed throws \<^verbatim>\<open>TokenExpiredError\<close>.
  Otherwise the decoded claims are returned. The specification says "past" and "in the
  future" and leaves the instant \<open>now = expires_at\<close> open; here it counts as expired.
\<close>

definition jwt_verify :: "jwt_scheme \<Rightarrow> claims verifier" where
  "jwt_verify L now token secret =
     (case split_on CHR ''.'' token of
        [h, p, s] \<Rightarrow>
          (case secret of
             None \<Rightarrow>
               Inl (JsError ''JsonWebTokenError'' ''secret or public key must be provided'')
           | Some key \<Rightarrow>
               if key = [] then
                 Inl (JsError ''JsonWebTokenError'' ''secret or public key must be provided'')
               else if h \<noteq> alg_header L then
                 Inl (JsError ''JsonWebTokenError'' ''unsupported algorithm'')
               else if s \<noteq> sign_with L key (h @ ''.'' @ p) then
                 Inl (JsError ''JsonWebTokenError'' ''invalid signature'')
               else
                 (case decode_claims L p of
                    None \<Rightarrow> Inl (JsError ''JsonWebTokenError'' ''invalid token'')
                  | Some c \<Rightarrow>
                      if expires_at c \<le> now then
                        Inl (JsError ''TokenExpiredError'' ''jwt expired'')
                      else Inr c))
      | _ \<Rightarrow> Inl (JsError ''JsonWebTokenError'' ''jwt malformed''))"

text \<open>
  Modelled from the spec: the contract the issuer must honour for the token of claims
  \<open>c\<close> under \<open>secret\<close>. No part contains the separator, and the payload decodes to the
  claims that were encoded.
\<close>

definition issued_properly :: "jwt_scheme \<Rightarrow> string \<Rightarrow> claims \<Rightarrow> bool" where
  "issued_properly L secret c \<longleftrightarrow>
     CHR ''.'' \<notin> set (alg_header L) \<and>
     CHR ''.'' \<notin> set (encode_claims L c) \<and>
     CHR ''.'' \<notin> set (sign_with L secret (signing_input L c)) \<and>
     decode_claims L (encode_claims L c) = Some c"

section \<open>Concrete instances\<close>

text \<open>A request as it reaches the middleware: nothing attached, nothing sent.\<close>

definition incoming :: "string option \<Rightarrow> claims exchange" where
  "incoming h =
     \<lparr>authorization = h, user = None, response = None, next_calls = 0, verify_log = []\<rparr>"

text \<open>
  A small instance of the token scheme on which the theorems below are exercised. The
  payload is the user id and the two times in unary, separated by colons; the tag joins
  secret and signing input. It stands for no real algorithm and is not a secure signature.
\<close>

definition demo_encode :: "claims \<Rightarrow> string" where
  "demo_encode c =
     user_id c @ '':'' @ replicate (issued_at c) CHR ''i'' @ '':'' @
     replicate (expires_at c) CHR ''i''"

definition demo_decode :: "string \<Rightarrow> claims option" where
  "demo_decode p =
     (case split_on CHR '':'' p of
        [u, a, b] \<Rightarrow> Some \<lparr>user_id = u, issued_at = length a, expires_at = length b\<rparr>
      | _ \<Rightarrow> None)"

definition demo_tag :: "string \<Rightarrow> string \<Rightarrow> string" where
  "demo_tag key m = filter (\<lambda>c. c \<noteq> CHR ''.'') (key @ ''/'' @ m)"

definition demo_scheme :: jwt_scheme where
  "demo_scheme =
     \<lparr>alg_header = ''HS256'', encode_claims = demo_encode, decode_claims = demo_decode,
      sign_with = demo_tag\<rparr>"

definition demo_claims :: claims where
  "demo_claims = \<lparr>user_id = ''u123'', issued_at = 1, expires_at = 4\<rparr>"

text \<open>A request that carries, after the prefix, the token of these claims under secret S.\<close>

definition demo_request :: "claims exchange" where
  "demo_request = incoming (Some (''Bearer '' @ jwt_sign demo_scheme ''S'' demo_claims))"

section \<open>Auxiliary facts\<close>

subsection \<open>Removing the first occurrence of a pattern\<close>

lemma replace_prefix: "pat \<noteq> [] \<Longrightarrow> replace (pat @ t) pat rep = rep @ t"
  by (cases pat) auto

lemma replace_absent: "\<not> sublist pat s \<Longrightarrow> replace s pat rep = s"
  by (induction s) (auto simp: sublist_Cons_right)

text \<open>
  If no occurrence of the pattern starts inside \<open>X\<close> and runs into the occurrence that
  follows \<open>X\<close>, and none lies within \<open>X\<close>, the occurrence after \<open>X\<close> is the first one.
\<close>

lemma replace_first_occurrence:
  assumes apart: "\<And>Z. Z \<noteq> [] \<Longrightarrow> prefix pat (Z @ pat @ Y) \<Longrightarrow> prefix pat Z"
    and absent: "\<not> sublist pat X"
  shows "replace (X @ pat @ Y) pat rep = X @ rep @ Y"
  using absent
proof (induction X)
  case Nil
  then have "pat \<noteq> []" by auto
  then show ?case by (simp add: replace_prefix)
next
  case (Cons c X)
  then have np: "\<not> prefix pat (c # X)" and ns: "\<not> sublist pat X"
    by (auto simp: sublist_Cons_right)
  from np apart [of "c # X"] have "\<not> prefix pat (c # (X @ pat @ Y))"
    by auto
  then have "replace (c # (X @ pat @ Y)) pat rep = c # replace (X @ pat @ Y) pat rep"
    by simp
  with Cons.IH [OF ns] show ?case by simp
qed

lemma prefix_append_long: "prefix p (Z @ W) \<Longrightarrow> length p \<le> length Z \<Longrightarrow> prefix p Z"
  by (auto simp: prefix_append)

text \<open>The letter B occurs in the pattern at its start only, so two occurrences never overlap.\<close>

lemma bearer_apart:
  assumes "Z \<noteq> []" and "prefix ''Bearer '' (Z @ ''Bearer '' @ Y)"
  shows "prefix ''Bearer '' Z"
proof (cases "length Z < 7")
  case True
  from assms(2) obtain r where r: "Z @ ''Bearer '' @ Y = ''Bearer '' @ r"
    by (auto simp: prefix_def)
  have "(Z @ ''Bearer '' @ Y) ! length Z = CHR ''B''"
    by (simp add: nth_append)
  with r have b: "(''Bearer '' @ r) ! length Z = CHR ''B''" by simp
  from assms(1) have "0 < length Z" by simp
  with True have "length Z = 1 \<or> length Z = 2 \<or> length Z = 3 \<or> length Z = 4
      \<or> length Z = 5 \<or> length Z = 6"
    by arith
  with b have False by (auto simp: nth_append)
  then show ?thesis ..
next
  case False
  then have "length ''Bearer '' \<le> length Z" by simp
  with assms(2) show ?thesis
    by (rule prefix_append_long)
qed

lemma replace_first_bearer:
  "\<not> sublist ''Bearer '' X \<Longrightarrow> replace (X @ ''Bearer '' @ Y) ''Bearer '' rep = X @ rep @ Y"
  by (rule replace_first_occurrence) (auto intro: bearer_apart)

subsection \<open>The path through the middleware once a token has been extracted\<close>

lemma authMiddleware_verifies:
  assumes "authorization x = Some h" and "h \<noteq> []"
    and "replace h ''Bearer '' [] = token" and "token \<noteq> []"
  shows "authMiddleware verify now secret x =
           (case verify now token secret of
              Inl error \<Rightarrow>
                authMiddleware_catch error (x\<lparr>verify_log := verify_log x @ [(token, secret)]\<rparr>)
            | Inr decoded \<Rightarrow>
                x\<lparr>verify_log := verify_log x @ [(token, secret)], user := Some decoded,
                  next_calls := Suc (next_calls x)\<rparr>)"
  using assms by (simp add: authMiddleware_def Let_def split: sum.splits)

lemma authMiddleware_bearer:
  assumes "authorization x = Some (''Bearer '' @ token)" and "token \<noteq> []"
  shows "authMiddleware verify now secret x =
           (case verify now token secret of
              Inl error \<Rightarrow>
                authMiddleware_catch error (x\<lparr>verify_log := verify_log x @ [(token, secret)]\<rparr>)
            | Inr decoded \<Rightarrow>
                x\<lparr>verify_log := verify_log x @ [(token, secret)], user := Some decoded,
                  next_calls := Suc (next_calls x)\<rparr>)"
proof -
  have stripped: "replace (''Bearer '' @ token) ''Bearer '' [] = token"
    using replace_prefix [of "''Bearer ''" token "[]"] by simp
  show ?thesis
    by (rule authMiddleware_verifies [OF assms(1) _ stripped assms(2)]) simp
qed

lemma frame_catch:
  "next_calls (authMiddleware_catch error x) = next_calls x"
  "user (authMiddleware_catch error x) = user x"
  "verify_log (authMiddleware_catch error x) = verify_log x"
  "authorization (authMiddleware_catch error x) = authorization x"
  by (simp_all add: authMiddleware_catch_def reject_def)

subsection \<open>Splitting a token into its parts\<close>

lemma split_on_not_Nil: "split_on d xs \<noteq> []"
  by (induction xs) (auto split: list.splits)

lemma split_on_plain: "d \<notin> set a \<Longrightarrow> split_on d a = [a]"
  by (induction a) auto

lemma split_on_append: "d \<notin> set a \<Longrightarrow> split_on d (a @ d # r) = a # split_on d r"
  by (induction a) auto

lemma length_split_on: "length (split_on d xs) = Suc (count_list xs d)"
  by (induction xs) (auto split: list.splits simp: split_on_not_Nil)

lemma split_on_three:
  assumes "split_on d (a @ d # b @ d # c) = [h, p, s]"
  shows "h = a \<and> p = b \<and> s = c"
proof -
  from assms have "length (split_on d (a @ d # b @ d # c)) = 3" by simp
  then have "count_list a d = 0" "count_list b d = 0" "count_list c d = 0"
    by (simp_all add: length_split_on)
  then have "d \<notin> set a" "d \<notin> set b" "d \<notin> set c"
    by (simp_all add: count_list_0_iff)
  then have "split_on d (a @ d # b @ d # c) = [a, b, c]"
    by (simp add: split_on_append split_on_plain)
  with assms show ?thesis by simp
qed

subsection \<open>Verifying a token that the issuer signed\<close>

lemma jwt_sign_not_empty: "jwt_sign L k c \<noteq> []"
  by (simp add: jwt_sign_def)

lemma jwt_sign_split:
  "issued_properly L k c \<Longrightarrow>
     split_on CHR ''.'' (jwt_sign L k c) =
       [alg_header L, encode_claims L c, sign_with L k (signing_input L c)]"
  by (simp add: issued_properly_def jwt_sign_def signing_input_def split_on_append split_on_plain)

lemma jwt_verify_own_token:
  assumes "issued_properly L k c" and "k \<noteq> []"
  shows "jwt_verify L now (jwt_sign L k c) (Some k) =
           (if expires_at c \<le> now then Inl (JsError ''TokenExpiredError'' ''jwt expired'')
            else Inr c)"
proof -
  from assms(1) have "decode_claims L (encode_claims L c) = Some c"
    by (simp add: issued_properly_def)
  with assms(2) jwt_sign_split [OF assms(1)] show ?thesis
    by (simp add: jwt_verify_def signing_input_def)
qed

lemma jwt_verify_foreign_token:
  assumes "t \<noteq> []"
    and "sign_with L t (signing_input L c) \<noteq> sign_with L s (signing_input L c)"
  shows "\<exists>m. jwt_verify L now (jwt_sign L s c) (Some t) = Inl (JsError ''JsonWebTokenError'' m)"
proof (cases "\<exists>h p g. split_on CHR ''.'' (jwt_sign L s c) = [h, p, g]")
  case True
  then obtain h p g where parts: "split_on CHR ''.'' (jwt_sign L s c) = [h, p, g]" by blast
  have "jwt_sign L s c = alg_header L @ CHR ''.'' # encode_claims L c @ CHR ''.'' #
          sign_with L s (signing_input L c)"
    by (simp add: jwt_sign_def signing_input_def)
  with parts split_on_three [of "CHR ''.''" "alg_header L" "encode_claims L c"
      "sign_with L s (signing_input L c)" h p g]
  have eq: "h = alg_header L" "p = encode_claims L c" "g = sign_with L s (signing_input L c)"
    by simp_all
  with assms(2) have "g \<noteq> sign_with L t (h @ ''.'' @ p)"
    by (simp add: signing_input_def)
  with assms(1) parts eq(1) show ?thesis
    by (simp add: jwt_verify_def)
next
  case False
  with assms(1) show ?thesis
    by (auto simp: jwt_verify_def split: list.splits)
qed


subsection \<open>The middleware on a token that the issuer signed\<close>

lemma authMiddleware_own_token:
  assumes "issued_properly L k c" and "k \<noteq> []"
    and "authorization x = Some (''Bearer '' @ jwt_sign L k c)"
  shows "authMiddleware (jwt_verify L) now (Some k) x =
           (if expires_at c \<le> now then
              x\<lparr>verify_log := verify_log x @ [(jwt_sign L k c, Some k)],
                response := Some (401, ''Access denied. Token expired.'')\<rparr>
            else
              x\<lparr>verify_log := verify_log x @ [(jwt_sign L k c, Some k)], user := Some c,
                next_calls := Suc (next_calls x)\<rparr>)"
  using authMiddleware_bearer [OF assms(3) jwt_sign_not_empty, of "jwt_verify L" now "Some k"]
    jwt_verify_own_token [OF assms(1,2), of now]
  by (simp add: authMiddleware_catch_def reject_def)

lemma authMiddleware_foreign_token:
  assumes "t \<noteq> []"
    and "sign_with L t (signing_input L c) \<noteq> sign_with L s (signing_input L c)"
    and "authorization x = Some (''Bearer '' @ jwt_sign L s c)"
  shows "authMiddleware (jwt_verify L) now (Some t) x =
           x\<lparr>verify_log := verify_log x @ [(jwt_sign L s c, Some t)],
             response := Some (401, ''Access denied. Invalid token.'')\<rparr>"
proof -
  from jwt_verify_foreign_token [OF assms(1,2), of now] obtain m
    where "jwt_verify L now (jwt_sign L s c) (Some t) = Inl (JsError ''JsonWebTokenError'' m)"
    by blast
  with authMiddleware_bearer [OF assms(3) jwt_sign_not_empty, of "jwt_verify L" now "Some t"]
  show ?thesis
    by (simp add: authMiddleware_catch_def reject_def)
qed

subsection \<open>The instance\<close>

lemma demo_issued_properly: "issued_properly demo_scheme ''S'' demo_claims"
  by (simp add: issued_properly_def demo_scheme_def demo_claims_def demo_encode_def
      demo_decode_def demo_tag_def signing_input_def numeral_nat)

lemma demo_request_simps:
  "authorization demo_request = Some (''Bearer '' @ jwt_sign demo_scheme ''S'' demo_claims)"
  "response demo_request = None"
  "user demo_request = None"
  "next_calls demo_request = 0"
  "verify_log demo_request = []"
  by (simp_all add: demo_request_def incoming_def)

lemma demo_accepted:
  assumes "authorization x = Some (''Bearer '' @ jwt_sign demo_scheme ''S'' demo_claims)"
  shows "authMiddleware (jwt_verify demo_scheme) 2 (Some ''S'') x =
           x\<lparr>verify_log := verify_log x @ [(jwt_sign demo_scheme ''S'' demo_claims, Some ''S'')],
             user := Some demo_claims, next_calls := Suc (next_calls x)\<rparr>"
proof -
  have "\<not> expires_at demo_claims \<le> 2" by (simp add: demo_claims_def)
  with authMiddleware_own_token [OF demo_issued_properly _ assms, of 2] show ?thesis
    by simp
qed

lemma demo_rejected:
  "authMiddleware (jwt_verify demo_scheme) 2 (Some ''S'') (incoming None) =
     (incoming None)\<lparr>response := Some (401, ''Access denied. No token provided.'')\<rparr>"
  by (simp add: authMiddleware_def reject_def incoming_def)

section \<open>Properties of the middleware\<close>

text \<open>
  Claim C1. A request that carries, after the prefix "Bearer ", a token which the issuer
  produced for claims \<open>c\<close> with the secret the guard is configured with, and whose
  expires-at lies strictly after the time of verification, is authenticated: the
  middleware stores in \<^verbatim>\<open>req.user\<close> exactly the claims that were encoded, calls \<^verbatim>\<open>next()\<close> once
  and sends no response. Equality of the two records is equality of every field.
\<close>

theorem valid_token_authenticates:
  assumes "issued_properly L k c" and "k \<noteq> []" and "now < expires_at c"
    and "authorization x = Some (''Bearer '' @ jwt_sign L k c)"
  shows "authMiddleware (jwt_verify L) now (Some k) x =
           x\<lparr>verify_log := verify_log x @ [(jwt_sign L k c, Some k)], user := Some c,
             next_calls := Suc (next_calls x)\<rparr>"
  using authMiddleware_own_token [OF assms(1,2,4), of now] assms(3) by simp

theorem valid_token_authenticates_witness:
  "issued_properly demo_scheme ''S'' demo_claims \<and> ''S'' \<noteq> [] \<and>
   2 < expires_at demo_claims \<and>
   authorization demo_request = Some (''Bearer '' @ jwt_sign demo_scheme ''S'' demo_claims) \<and>
   authMiddleware (jwt_verify demo_scheme) 2 (Some ''S'') demo_request =
     demo_request\<lparr>verify_log := verify_log demo_request @
         [(jwt_sign demo_scheme ''S'' demo_claims, Some ''S'')],
       user := Some demo_claims, next_calls := Suc (next_calls demo_request)\<rparr>"
proof -
  have b: "''S'' \<noteq> []" by simp
  have c: "2 < expires_at demo_claims" by (simp add: demo_claims_def)
  note a = demo_issued_properly and d = demo_request_simps(1)
  from a b c d valid_token_authenticates [OF a b c d] show ?thesis by blast
qed

text \<open>
  Claim C2. A request without an Authorization header is answered with status 401 and the
  message "Access denied. No token provided."; nothing else of the exchange changes, and
  the answer is the same for every verifier, secret and clock: the header's presence is
  tested before the token's shape or signature is looked at, and \<^verbatim>\<open>jwt.verify\<close> is not called.
\<close>

theorem no_header_missing_credential:
  assumes "authorization x = None"
  shows "authMiddleware verify now secret x
           = x\<lparr>response := Some (401, ''Access denied. No token provided.'')\<rparr>"
  using assms by (simp add: authMiddleware_def reject_def)

theorem no_header_missing_credential_witness:
  "authorization (incoming None) = None \<and>
   authMiddleware (jwt_verify demo_scheme) 2 (Some ''S'') (incoming None)
     = (incoming None)\<lparr>response := Some (401, ''Access denied. No token provided.'')\<rparr>"
proof -
  have h: "authorization (incoming None) = None" by (simp add: incoming_def)
  from h no_header_missing_credential [OF h, of "jwt_verify demo_scheme" 2 "Some ''S''"]
  show ?thesis by simp
qed

text \<open>
  Claim C3. A request whose Authorization header is exactly "Bearer " is answered with
  status 401 and the message "Access denied. Invalid token format."; nothing else of the
  exchange changes. In particular the log of calls of \<^verbatim>\<open>jwt.verify\<close> is as before: no
  cryptographic verification is attempted.
\<close>

theorem bare_prefix_malformed_credential:
  assumes "authorization x = Some ''Bearer ''"
  shows "authMiddleware verify now secret x
           = x\<lparr>response := Some (401, ''Access denied. Invalid token format.'')\<rparr>
         \<and> verify_log (authMiddleware verify now secret x) = verify_log x"
  using assms by (simp add: authMiddleware_def reject_def)

theorem bare_prefix_malformed_credential_witness:
  "authorization (incoming (Some ''Bearer '')) = Some ''Bearer '' \<and>
   authMiddleware (jwt_verify demo_scheme) 2 (Some ''S'') (incoming (Some ''Bearer ''))
     = (incoming (Some ''Bearer ''))\<lparr>response := Some (401, ''Access denied. Invalid token format.'')\<rparr>
   \<and> verify_log (authMiddleware (jwt_verify demo_scheme) 2 (Some ''S'') (incoming (Some ''Bearer '')))
     = verify_log (incoming (Some ''Bearer ''))"
proof -
  have h: "authorization (incoming (Some ''Bearer '')) = Some ''Bearer ''"
    by (simp add: incoming_def)
  from h bare_prefix_malformed_credential [OF h, of "jwt_verify demo_scheme" 2 "Some ''S''"]
  show ?thesis by simp
qed

text \<open>
  Claim C4. When the Authorization header is a non-empty string in which "Bearer " does
  not occur, the header itself, unchanged, is the token on which \<^verbatim>\<open>jwt.verify\<close> is called, and
  what that call does decides the outcome: a thrown error is answered by the \<^verbatim>\<open>catch\<close> block,
  a returned payload is attached and the request forwarded. The call is logged with the
  header as its token, and the request is not answered with "Access denied. Invalid token
  format.".
\<close>

theorem header_without_prefix_is_the_token:
  assumes "authorization x = Some h" and "h \<noteq> []" and "\<not> sublist ''Bearer '' h"
    and "response x = None"
  shows "authMiddleware verify now secret x =
           (case verify now h secret of
              Inl error \<Rightarrow>
                authMiddleware_catch error (x\<lparr>verify_log := verify_log x @ [(h, secret)]\<rparr>)
            | Inr decoded \<Rightarrow>
                x\<lparr>verify_log := verify_log x @ [(h, secret)], user := Some decoded,
                  next_calls := Suc (next_calls x)\<rparr>)
         \<and> verify_log (authMiddleware verify now secret x) = verify_log x @ [(h, secret)]
         \<and> response (authMiddleware verify now secret x)
             \<noteq> Some (401, ''Access denied. Invalid token format.'')"
proof -
  from assms(3) have "replace h ''Bearer '' [] = h" by (rule replace_absent)
  note run = authMiddleware_verifies [OF assms(1,2) this assms(2), of verify now secret]
  from run assms(4) have "verify_log (authMiddleware verify now secret x)
        = verify_log x @ [(h, secret)]
      \<and> response (authMiddleware verify now secret x)
        \<noteq> Some (401, ''Access denied. Invalid token format.'')"
    by (simp add: authMiddleware_catch_def reject_def split: sum.splits)
  with run show ?thesis by blast
qed

theorem header_without_prefix_is_the_token_witness:
  "authorization (incoming (Some (jwt_sign demo_scheme ''S'' demo_claims)))
     = Some (jwt_sign demo_scheme ''S'' demo_claims) \<and>
   jwt_sign demo_scheme ''S'' demo_claims \<noteq> [] \<and>
   \<not> sublist ''Bearer '' (jwt_sign demo_scheme ''S'' demo_claims) \<and>
   response (incoming (Some (jwt_sign demo_scheme ''S'' demo_claims))) = None \<and>
   authMiddleware (jwt_verify demo_scheme) 2 (Some ''S'')
       (incoming (Some (jwt_sign demo_scheme ''S'' demo_claims)))
     = (incoming (Some (jwt_sign demo_scheme ''S'' demo_claims)))
         \<lparr>verify_log := verify_log (incoming (Some (jwt_sign demo_scheme ''S'' demo_claims)))
            @ [(jwt_sign demo_scheme ''S'' demo_claims, Some ''S'')],
          user := Some demo_claims,
          next_calls := Suc (next_calls (incoming (Some (jwt_sign demo_scheme ''S'' demo_claims))))\<rparr>
   \<and> verify_log (authMiddleware (jwt_verify demo_scheme) 2 (Some ''S'')
         (incoming (Some (jwt_sign demo_scheme ''S'' demo_claims))))
     = verify_log (incoming (Some (jwt_sign demo_scheme ''S'' demo_claims)))
         @ [(jwt_sign demo_scheme ''S'' demo_claims, Some ''S'')]
   \<and> response (authMiddleware (jwt_verify demo_scheme) 2 (Some ''S'')
         (incoming (Some (jwt_sign demo_scheme ''S'' demo_claims))))
     \<noteq> Some (401, ''Access denied. Invalid token format.'')"
proof -
  have a: "authorization (incoming (Some (jwt_sign demo_scheme ''S'' demo_claims)))
      = Some (jwt_sign demo_scheme ''S'' demo_claims)"
    by (simp add: incoming_def)
  note b = jwt_sign_not_empty [of demo_scheme "''S''" demo_claims]
  have c: "\<not> sublist ''Bearer '' (jwt_sign demo_scheme ''S'' demo_claims)"
    by (simp add: jwt_sign_def signing_input_def demo_scheme_def demo_claims_def
        demo_encode_def demo_tag_def numeral_nat sublist_Cons_right)
  have d: "response (incoming (Some (jwt_sign demo_scheme ''S'' demo_claims))) = None"
    by (simp add: incoming_def)
  have v: "jwt_verify demo_scheme 2 (jwt_sign demo_scheme ''S'' demo_claims) (Some ''S'')
      = Inr demo_claims"
    using jwt_verify_own_token [OF demo_issued_properly, of 2]
    by (simp add: demo_claims_def)
  from a b c d v
    header_without_prefix_is_the_token [OF a b c d, of "jwt_verify demo_scheme" 2 "Some ''S''"]
  show ?thesis by simp
qed

text \<open>
  Claim C5. A request that carries a token signed with a secret \<open>s\<close> other than the
  guard's configured secret \<open>t\<close> is answered with status 401 and the message "Access
  denied. Invalid token.", whatever the claims of the token are: expired or not, decodable
  or not. That the token is signed with another secret is taken to mean that its
  signature is not the one which the guard's secret yields on the same signing input.
\<close>

theorem foreign_secret_rejected:
  assumes "t \<noteq> []"
    and "sign_with L t (signing_input L c) \<noteq> sign_with L s (signing_input L c)"
    and "authorization x = Some (''Bearer '' @ jwt_sign L s c)"
  shows "authMiddleware (jwt_verify L) now (Some t) x =
           x\<lparr>verify_log := verify_log x @ [(jwt_sign L s c, Some t)],
             response := Some (401, ''Access denied. Invalid token.'')\<rparr>"
  using assms by (rule authMiddleware_foreign_token)

theorem foreign_secret_rejected_witness:
  "''T'' \<noteq> [] \<and>
   sign_with demo_scheme ''T'' (signing_input demo_scheme demo_claims)
     \<noteq> sign_with demo_scheme ''S'' (signing_input demo_scheme demo_claims) \<and>
   authorization demo_request = Some (''Bearer '' @ jwt_sign demo_scheme ''S'' demo_claims) \<and>
   authMiddleware (jwt_verify demo_scheme) 2 (Some ''T'') demo_request =
     demo_request\<lparr>verify_log := verify_log demo_request @
         [(jwt_sign demo_scheme ''S'' demo_claims, Some ''T'')],
       response := Some (401, ''Access denied. Invalid token.'')\<rparr>"
proof -
  have a: "''T'' \<noteq> []" by simp
  have b: "sign_with demo_scheme ''T'' (signing_input demo_scheme demo_claims)
     \<noteq> sign_with demo_scheme ''S'' (signing_input demo_scheme demo_claims)"
    by (simp add: demo_scheme_def demo_tag_def)
  note c = demo_request_simps(1)
  from a b c foreign_secret_rejected [OF a b c] show ?thesis by blast
qed

text \<open>
  Claim C6. A request that carries a token signed with the guard's configured secret whose
  expires-at lies strictly before the time of verification is answered with status 401
  and the message "Access denied. Token expired.", which is not the answer given to an
  invalid token.
\<close>

theorem expired_token_rejected:
  assumes "issued_properly L k c" and "k \<noteq> []" and "expires_at c < now"
    and "authorization x = Some (''Bearer '' @ jwt_sign L k c)"
  shows "authMiddleware (jwt_verify L) now (Some k) x =
           x\<lparr>verify_log := verify_log x @ [(jwt_sign L k c, Some k)],
             response := Some (401, ''Access denied. Token expired.'')\<rparr>
         \<and> response (authMiddleware (jwt_verify L) now (Some k) x)
             \<noteq> Some (401, ''Access denied. Invalid token.'')"
  using authMiddleware_own_token [OF assms(1,2,4), of now] assms(3) by simp

theorem expired_token_rejected_witness:
  "issued_properly demo_scheme ''S'' demo_claims \<and> ''S'' \<noteq> [] \<and>
   expires_at demo_claims < 5 \<and>
   authorization demo_request = Some (''Bearer '' @ jwt_sign demo_scheme ''S'' demo_claims) \<and>
   authMiddleware (jwt_verify demo_scheme) 5 (Some ''S'') demo_request =
     demo_request\<lparr>verify_log := verify_log demo_request @
         [(jwt_sign demo_scheme ''S'' demo_claims, Some ''S'')],
       response := Some (401, ''Access denied. Token expired.'')\<rparr> \<and>
   response (authMiddleware (jwt_verify demo_scheme) 5 (Some ''S'') demo_request)
     \<noteq> Some (401, ''Access denied. Invalid token.'')"
proof -
  have b: "''S'' \<noteq> []" by simp
  have c: "expires_at demo_claims < 5" by (simp add: demo_claims_def)
  note a = demo_issued_properly and d = demo_request_simps(1)
  from a b c d expired_token_rejected [OF a b c d] show ?thesis by blast
qed




text \<open>
  Claim C8. The outcome is a function of the header, the secret and the time of
  verification. Two exchanges with the same header, whatever else they hold (an identity
  attached earlier, the number of earlier calls of \<^verbatim>\<open>next()\<close>, the tokens verified
  before), get the same response; and when the one is authenticated, so is the other, with
  the same identity, each forwarded once. The second exchange may be the first one after
  the middleware has run on it: a token accepted once is accepted again.
\<close>

theorem same_input_same_outcome:
  assumes "authorization y = authorization x" and "response x = None" and "response y = None"
  shows "response (authMiddleware verify now secret y) = response (authMiddleware verify now secret x)
         \<and> (response (authMiddleware verify now secret x) = None \<longrightarrow>
              user (authMiddleware verify now secret y) = user (authMiddleware verify now secret x)
              \<and> next_calls (authMiddleware verify now secret x) = Suc (next_calls x)
              \<and> next_calls (authMiddleware verify now secret y) = Suc (next_calls y))"
  using assms
  by (auto simp: authMiddleware_def authMiddleware_catch_def reject_def Let_def
      split: sum.splits option.splits)

theorem same_input_same_outcome_witness:
  "authorization (authMiddleware (jwt_verify demo_scheme) 2 (Some ''S'') demo_request)
     = authorization demo_request \<and>
   response demo_request = None \<and>
   response (authMiddleware (jwt_verify demo_scheme) 2 (Some ''S'') demo_request) = None \<and>
   response (authMiddleware (jwt_verify demo_scheme) 2 (Some ''S'')
       (authMiddleware (jwt_verify demo_scheme) 2 (Some ''S'') demo_request))
     = response (authMiddleware (jwt_verify demo_scheme) 2 (Some ''S'') demo_request) \<and>
   user (authMiddleware (jwt_verify demo_scheme) 2 (Some ''S'')
       (authMiddleware (jwt_verify demo_scheme) 2 (Some ''S'') demo_request))
     = user (authMiddleware (jwt_verify demo_scheme) 2 (Some ''S'') demo_request) \<and>
   next_calls (authMiddleware (jwt_verify demo_scheme) 2 (Some ''S'') demo_request)
     = Suc (next_calls demo_request) \<and>
   next_calls (authMiddleware (jwt_verify demo_scheme) 2 (Some ''S'')
       (authMiddleware (jwt_verify demo_scheme) 2 (Some ''S'') demo_request))
     = Suc (next_calls (authMiddleware (jwt_verify demo_scheme) 2 (Some ''S'') demo_request))"
proof -
  have a: "authorization (authMiddleware (jwt_verify demo_scheme) 2 (Some ''S'') demo_request)
     = authorization demo_request"
    by (simp add: demo_accepted [OF demo_request_simps(1)])
  note b = demo_request_simps(2)
  have c: "response (authMiddleware (jwt_verify demo_scheme) 2 (Some ''S'') demo_request) = None"
    by (simp add: demo_accepted [OF demo_request_simps(1)] demo_request_simps(2))
  from a b c same_input_same_outcome [OF a b c, of "jwt_verify demo_scheme" 2 "Some ''S''"]
  show ?thesis by blast
qed

text \<open>
  Claim C9. On a request to which no response has been sent yet: if the middleware
  answers with a rejection, \<^verbatim>\<open>next()\<close> has not been called and \<^verbatim>\<open>req.user\<close> is as it was; and if
  \<^verbatim>\<open>next()\<close> has been called, no response was sent, the verification returned a payload and
  that payload is the identity attached.
\<close>

theorem rejection_never_forwards:
  assumes "response x = None"
  shows "(response (authMiddleware verify now secret x) \<noteq> None \<longrightarrow>
            next_calls (authMiddleware verify now secret x) = next_calls x \<and>
            user (authMiddleware verify now secret x) = user x)
         \<and> (next_calls (authMiddleware verify now secret x) \<noteq> next_calls x \<longrightarrow>
              response (authMiddleware verify now secret x) = None \<and>
              (\<exists>token decoded. verify now token secret = Inr decoded \<and>
                 user (authMiddleware verify now secret x) = Some decoded))"
  using assms
  by (auto simp: authMiddleware_def authMiddleware_catch_def reject_def Let_def
      split: sum.splits option.splits)

theorem rejection_never_forwards_witness:
  "response (incoming None) = None \<and>
   response (authMiddleware (jwt_verify demo_scheme) 2 (Some ''S'') (incoming None)) \<noteq> None \<and>
   next_calls (authMiddleware (jwt_verify demo_scheme) 2 (Some ''S'') (incoming None))
     = next_calls (incoming None) \<and>
   user (authMiddleware (jwt_verify demo_scheme) 2 (Some ''S'') (incoming None))
     = user (incoming None) \<and>
   response demo_request = None \<and>
   next_calls (authMiddleware (jwt_verify demo_scheme) 2 (Some ''S'') demo_request)
     \<noteq> next_calls demo_request \<and>
   response (authMiddleware (jwt_verify demo_scheme) 2 (Some ''S'') demo_request) = None \<and>
   (\<exists>token decoded. jwt_verify demo_scheme 2 token (Some ''S'') = Inr decoded \<and>
      user (authMiddleware (jwt_verify demo_scheme) 2 (Some ''S'') demo_request) = Some decoded)"
proof -
  have a: "response (incoming None) = None" by (simp add: incoming_def)
  have b: "response (authMiddleware (jwt_verify demo_scheme) 2 (Some ''S'') (incoming None))
      \<noteq> None"
    by (simp add: demo_rejected)
  note c = demo_request_simps(2)
  have d: "next_calls (authMiddleware (jwt_verify demo_scheme) 2 (Some ''S'') demo_request)
     \<noteq> next_calls demo_request"
    by (simp add: demo_accepted [OF demo_request_simps(1)])
  from a b c d
    rejection_never_forwards [OF a, of "jwt_verify demo_scheme" 2 "Some ''S''"]
    rejection_never_forwards [OF c, of "jwt_verify demo_scheme" 2 "Some ''S''"]
  show ?thesis by blast
qed

text \<open>
  Claim C10, as amended. For a header of the form \<open>X @ ''Bearer '' @ Y\<close> with \<open>X\<close> non-empty
  and without an occurrence of "Bearer " in \<open>X\<close>, the token handed to \<^verbatim>\<open>jwt.verify\<close> is
  \<open>X @ Y\<close>, which differs from the header. The occurrence that is removed is the first
  one, wherever it starts.
\<close>

theorem first_occurrence_is_removed:
  assumes "authorization x = Some (X @ ''Bearer '' @ Y)" and "X \<noteq> []"
    and "\<not> sublist ''Bearer '' X"
  shows "verify_log (authMiddleware verify now secret x) = verify_log x @ [(X @ Y, secret)]
         \<and> X @ Y \<noteq> X @ ''Bearer '' @ Y"
proof -
  from assms(3) have "replace (X @ ''Bearer '' @ Y) ''Bearer '' [] = X @ [] @ Y"
    by (rule replace_first_bearer)
  then have r: "replace (X @ ''Bearer '' @ Y) ''Bearer '' [] = X @ Y" by simp
  from assms(2) have ne: "X @ ''Bearer '' @ Y \<noteq> []" "X @ Y \<noteq> []" by simp_all
  from authMiddleware_verifies [OF assms(1) ne(1) r ne(2), of verify now secret]
  show ?thesis
    by (simp add: frame_catch split: sum.splits)
qed

theorem first_occurrence_is_removed_witness:
  "authorization (incoming (Some (''x'' @ ''Bearer '' @ ''abc''))) = Some (''x'' @ ''Bearer '' @ ''abc'')
   \<and> ''x'' \<noteq> [] \<and> \<not> sublist ''Bearer '' ''x'' \<and>
   verify_log (authMiddleware (jwt_verify demo_scheme) 2 (Some ''S'')
       (incoming (Some (''x'' @ ''Bearer '' @ ''abc''))))
     = verify_log (incoming (Some (''x'' @ ''Bearer '' @ ''abc''))) @ [(''x'' @ ''abc'', Some ''S'')]
   \<and> ''x'' @ ''abc'' \<noteq> ''x'' @ ''Bearer '' @ ''abc''"
proof -
  have a: "authorization (incoming (Some (''x'' @ ''Bearer '' @ ''abc'')))
      = Some (''x'' @ ''Bearer '' @ ''abc'')"
    by (simp add: incoming_def)
  have b: "''x'' \<noteq> []" by simp
  have c: "\<not> sublist ''Bearer '' ''x''" by (simp add: sublist_Cons_right)
  from a b c first_occurrence_is_removed [OF a b c, of "jwt_verify demo_scheme" 2 "Some ''S''"]
  show ?thesis by blast
qed

text \<open>
  Claim C10 as stated fails when \<open>X\<close> itself contains "Bearer ": for \<open>X = ''Bearer a''\<close> and
  \<open>Y = ''b''\<close> the first occurrence lies within \<open>X\<close>, and the token is "aBearer b", not
  \<open>X @ Y\<close>, which is "Bearer ab".
\<close>

theorem first_occurrence_counterexample:
  "''Bearer a'' \<noteq> [] \<and>
   verify_log (authMiddleware (jwt_verify demo_scheme) 2 (Some ''S'')
       (incoming (Some (''Bearer a'' @ ''Bearer '' @ ''b''))))
     = [(''aBearer b'', Some ''S'')] \<and>
   verify_log (authMiddleware (jwt_verify demo_scheme) 2 (Some ''S'')
       (incoming (Some (''Bearer a'' @ ''Bearer '' @ ''b''))))
     \<noteq> verify_log (incoming (Some (''Bearer a'' @ ''Bearer '' @ ''b'')))
         @ [(''Bearer a'' @ ''b'', Some ''S'')]"
  by (simp add: authMiddleware_def incoming_def Let_def authMiddleware_catch_def reject_def
      split: sum.splits)

end
